theory Spec2Isabelle
  imports Main "HOL-Library.Sublist"
begin

section \<open>The kubectl tool surface of server.py\<close>

text \<open>
  The two command tools of \<^verbatim>\<open>src/server.py\<close>, \<^verbatim>\<open>run_kubectl_command\<close> (lines 102-141)
  and \<^verbatim>\<open>run_kubectl_command_ro\<close> (lines 144-213), as HOL functions.

  A Python \<^verbatim>\<open>str\<close> is a \<^typ>\<open>string\<close>: a list of characters, each \<^typ>\<open>char\<close> standing for
  the code point of the same number (0 to 255). The external world is a parameter: an
  executor says what happens when \<^verbatim>\<open>subprocess.run\<close> is handed an argument vector. A
  tool call yields what the Python function returns or raises, together with the list of
  argument vectors it handed to \<^verbatim>\<open>subprocess.run\<close>. Logging is left out.
\<close>

subsection \<open>Python string operations\<close>

text \<open>\<^verbatim>\<open>s.startswith(p)\<close>: compare character by character from the front.\<close>

fun startswith :: "string \<Rightarrow> string \<Rightarrow> bool" where
  "startswith s [] = True"
| "startswith [] (p # ps) = False"
| "startswith (c # cs) (p # ps) = (c = p \<and> startswith cs ps)"

text \<open>\<^verbatim>\<open>t in s\<close>: \<open>t\<close> starts at some position of \<open>s\<close> (the end included, for the empty \<open>t\<close>).\<close>

fun contains :: "string \<Rightarrow> string \<Rightarrow> bool" where
  "contains [] t = startswith [] t"
| "contains (c # cs) t = (startswith (c # cs) t \<or> contains cs t)"

text \<open>
  \<^verbatim>\<open>c.isspace()\<close> on the code points below 256: TAB, LF, VT, FF, CR, the separators
  FS, GS, RS, US, the space, NEL (0x85) and the no-break space (0xA0).
\<close>

definition isspace :: "char \<Rightarrow> bool" where
  "isspace c =
     (let n = (of_char c :: nat)
      in (9 \<le> n \<and> n \<le> 13) \<or> (28 \<le> n \<and> n \<le> 32) \<or> n = 133 \<or> n = 160)"

text \<open>
  \<^verbatim>\<open>s.split()\<close> with no separator: runs of whitespace separate the words, and no empty
  word is produced. \<open>split_from w s\<close> scans \<open>s\<close> with \<open>w\<close> the word read so far.
\<close>

fun split_from :: "string \<Rightarrow> string \<Rightarrow> string list" where
  "split_from w [] = (if w = [] then [] else [w])"
| "split_from w (c # cs) =
     (if isspace c then (if w = [] then split_from [] cs else w # split_from [] cs)
      else split_from (w @ [c]) cs)"

definition split :: "string \<Rightarrow> string list" where
  "split s = split_from [] s"

subsection \<open>The external process\<close>

text \<open>
  What the operating system does with an argument vector: the process runs and exits
  with a return code, its standard output and its standard error; or
  \<^verbatim>\<open>subprocess.run\<close> cannot start it and raises an exception of its own
  (FileNotFoundError, PermissionError, ValueError for an embedded NUL), of which the
  name is kept.
\<close>

datatype process_outcome =
    Exited int string string
  | LaunchFailed string

type_synonym executor = "string list \<Rightarrow> process_outcome"

record completed_process =
  returncode :: int
  stdout :: string
  stderr :: string

datatype py_exception =
    CalledProcessError int string string
  | LaunchError string

text \<open>
  \<^verbatim>\<open>subprocess.run(argv, capture_output=True, text=True, check=True)\<close>: with
  \<^verbatim>\<open>check=True\<close> a non-zero return code raises CalledProcessError, which carries the
  return code, the output and the standard error.
\<close>

definition subprocess_run :: "executor \<Rightarrow> string list \<Rightarrow> py_exception + completed_process" where
  "subprocess_run ex argv =
     (case ex argv of
        LaunchFailed e \<Rightarrow> Inl (LaunchError e)
      | Exited rc out err \<Rightarrow>
          if rc \<noteq> 0 then Inl (CalledProcessError rc out err)
          else Inr \<lparr>returncode = rc, stdout = out, stderr = err\<rparr>)"

subsection \<open>The tools\<close>

text \<open>
  The outcome of a tool call: \<open>returned\<close> is \<open>Inr s\<close> when the Python function returns the
  string \<open>s\<close> and \<open>Inl e\<close> when the exception \<open>e\<close> leaves it; \<open>spawned\<close> lists the argument
  vectors handed to \<^verbatim>\<open>subprocess.run\<close>, in order: one entry for each process the tool
  asks for, whether or not the operating system can start it.
\<close>

record tool_outcome =
  returned :: "py_exception + string"
  spawned :: "string list list"

definition prefix_error :: string where
  "prefix_error = ''Error: Command must start with '' @ [CHR 0x27] @ ''kubectl'' @ [CHR 0x27]"

definition readonly_error :: string where
  "readonly_error = ''Error: Only read-only kubectl commands are allowed (get, describe, etc.)''"

text \<open>
  Lines 132-141 and 204-213, the same text in both tools and written once here: run
  the command split on whitespace, return its standard output;
  \<^verbatim>\<open>except subprocess.CalledProcessError\<close> turns that exception, and no other, into the
  string \<^verbatim>\<open>f"Error: {e.stderr}"\<close>.
\<close>

definition forward :: "executor \<Rightarrow> string \<Rightarrow> tool_outcome" where
  "forward ex command =
     (case subprocess_run ex (split command) of
        Inr result \<Rightarrow> \<lparr>returned = Inr (stdout result), spawned = [split command]\<rparr>
      | Inl (CalledProcessError rc out err) \<Rightarrow>
          \<lparr>returned = Inr (''Error: '' @ err), spawned = [split command]\<rparr>
      | Inl (LaunchError e) \<Rightarrow> \<lparr>returned = Inl (LaunchError e), spawned = [split command]\<rparr>)"

text \<open>\<^verbatim>\<open>run_kubectl_command\<close>, lines 126-141.\<close>

definition run_kubectl_command :: "executor \<Rightarrow> string \<Rightarrow> tool_outcome" where
  "run_kubectl_command ex command =
     (if \<not> startswith command ''kubectl ''
      then \<lparr>returned = Inr prefix_error, spawned = []\<rparr>
      else forward ex command)"

text \<open>The two lists of \<^verbatim>\<open>run_kubectl_command_ro\<close>, lines 187-194.\<close>

definition allowed_prefixes :: "string list" where
  "allowed_prefixes =
     [''get'', ''describe'', ''explain'',
      ''config view'', ''config get-contexts'',
      ''version'', ''api-resources'', ''cluster-info'']"

definition disallowed_terms :: "string list" where
  "disallowed_terms =
     [''delete'', ''update'', ''patch'', ''apply'', ''create'',
      ''replace'', ''edit'', ''scale'', ''cordon'', ''drain'',
      ''taint'', ''label --overwrite'', ''annotate --overwrite'']"

text \<open>Lines 197 and 198: the two \<^verbatim>\<open>any(...)\<close> over the lists.\<close>

definition is_allowed :: "string \<Rightarrow> bool" where
  "is_allowed kubectl_subcommand =
     list_ex (\<lambda>prefix. startswith kubectl_subcommand prefix) allowed_prefixes"

definition has_disallowed :: "string \<Rightarrow> bool" where
  "has_disallowed kubectl_subcommand =
     list_ex (\<lambda>term. contains kubectl_subcommand term) disallowed_terms"

text \<open>\<^verbatim>\<open>run_kubectl_command_ro\<close>, lines 178-213; \<^verbatim>\<open>command[8:]\<close> is \<open>drop 8 command\<close>.\<close>

definition run_kubectl_command_ro :: "executor \<Rightarrow> string \<Rightarrow> tool_outcome" where
  "run_kubectl_command_ro ex command =
     (if \<not> startswith command ''kubectl ''
      then \<lparr>returned = Inr prefix_error, spawned = []\<rparr>
      else
        let kubectl_subcommand = drop 8 command
        in if \<not> is_allowed kubectl_subcommand \<or> has_disallowed kubectl_subcommand
           then \<lparr>returned = Inr readonly_error, spawned = []\<rparr>
           else forward ex command)"

subsection \<open>Executors for concrete runs\<close>

text \<open>
  Three worlds to run the tools in: one where every process exits with 0 and prints
  \<open>out\<close>, one where every process exits with \<open>rc\<close> and the standard error \<open>err\<close>,
  and one where no process can be started (the executable is missing, say).
\<close>

definition answering :: "string \<Rightarrow> executor" where
  "answering out argv = Exited 0 out []"

definition failing :: "int \<Rightarrow> string \<Rightarrow> executor" where
  "failing rc err argv = Exited rc [] err"

definition unlaunchable :: "string \<Rightarrow> executor" where
  "unlaunchable e argv = LaunchFailed e"

section \<open>The string operations against the library's notions\<close>

lemma startswith_iff_prefix: "startswith s p \<longleftrightarrow> prefix p s"
  by (induction s p rule: startswith.induct) auto

lemma contains_iff_sublist: "contains s t \<longleftrightarrow> sublist t s"
  by (induction s) (simp_all add: startswith_iff_prefix sublist_Cons_right)

lemma is_allowed_iff: "is_allowed body \<longleftrightarrow> (\<exists>p\<in>set allowed_prefixes. prefix p body)"
  by (simp add: is_allowed_def list_ex_iff startswith_iff_prefix)

lemma has_disallowed_iff: "has_disallowed body \<longleftrightarrow> (\<exists>t\<in>set disallowed_terms. sublist t body)"
  by (simp add: has_disallowed_def list_ex_iff contains_iff_sublist)

lemma split_from_tokens:
  assumes "\<forall>c\<in>set w. \<not> isspace c"
  shows "\<forall>t\<in>set (split_from w s). t \<noteq> [] \<and> (\<forall>c\<in>set t. \<not> isspace c)"
  using assms
proof (induction s arbitrary: w)
  case Nil
  then show ?case by simp
next
  case (Cons a s)
  show ?case
  proof (cases "isspace a")
    case True
    have "\<forall>t\<in>set (split_from [] s). t \<noteq> [] \<and> (\<forall>c\<in>set t. \<not> isspace c)"
      using Cons.IH [of "[]"] by simp
    with True Cons.prems show ?thesis by simp
  next
    case False
    with Cons.prems have "\<forall>c\<in>set (w @ [a]). \<not> isspace c" by simp
    from Cons.IH [OF this] False show ?thesis by simp
  qed
qed

lemma split_tokens: "\<forall>t\<in>set (split s). t \<noteq> [] \<and> (\<forall>c\<in>set t. \<not> isspace c)"
  using split_from_tokens [of "[]" s] by (simp add: split_def)

lemma concat_split_from: "concat (split_from w s) = w @ filter (\<lambda>c. \<not> isspace c) s"
  by (induction s arbitrary: w) simp_all

lemma concat_split: "concat (split s) = filter (\<lambda>c. \<not> isspace c) s"
  by (simp add: split_def concat_split_from)

lemma split_kubectl: "split (''kubectl '' @ body) = ''kubectl'' # split body"
  by (simp add: split_def isspace_def)

lemma spawned_forward: "spawned (forward ex command) = [split command]"
  by (simp add: forward_def split: sum.split py_exception.split)

lemma returned_forward:
  "returned (forward ex command) =
     (case ex (split command) of
        Exited rc out err \<Rightarrow> Inr (if rc = 0 then out else ''Error: '' @ err)
      | LaunchFailed e \<Rightarrow> Inl (LaunchError e))"
  by (simp add: forward_def subprocess_run_def split: process_outcome.split)

lemma errors_differ: "prefix_error \<noteq> readonly_error"
  by (simp add: prefix_error_def readonly_error_def)

section \<open>The two branches of the read-only gate\<close>

lemma gate_passes:
  "prefix ''kubectl '' command \<Longrightarrow> is_allowed (drop 8 command) \<Longrightarrow>
   \<not> has_disallowed (drop 8 command) \<Longrightarrow>
   run_kubectl_command_ro ex command = forward ex command"
  by (simp add: run_kubectl_command_ro_def startswith_iff_prefix)

lemma gate_denies:
  "prefix ''kubectl '' command \<Longrightarrow> \<not> is_allowed (drop 8 command) \<or> has_disallowed (drop 8 command) \<Longrightarrow>
   run_kubectl_command_ro ex command = \<lparr>returned = Inr readonly_error, spawned = []\<rparr>"
  by (auto simp add: run_kubectl_command_ro_def startswith_iff_prefix)

lemma prefix_kubectl: "prefix ''kubectl '' (''kubectl '' @ body)"
  by simp

lemma drop_kubectl: "drop 8 (''kubectl '' @ body) = body"
  by simp

text \<open>
  Non-zero exits: \<^verbatim>\<open>check=True\<close> raises CalledProcessError, the handler of both tools
  catches it and returns \<^verbatim>\<open>"Error: "\<close> followed by the standard error of the process.
\<close>

lemma nonzero_exit_is_reported:
  assumes "prefix ''kubectl '' command" and "ex (split command) = Exited rc out err" and "rc \<noteq> 0"
  shows "run_kubectl_command ex command
           = \<lparr>returned = Inr (''Error: '' @ err), spawned = [split command]\<rparr>
       \<and> (is_allowed (drop 8 command) \<and> \<not> has_disallowed (drop 8 command)
            \<longrightarrow> run_kubectl_command_ro ex command
                  = \<lparr>returned = Inr (''Error: '' @ err), spawned = [split command]\<rparr>)"
  using assms
  by (simp add: run_kubectl_command_def startswith_iff_prefix gate_passes forward_def
      subprocess_run_def)

text \<open>Unfolding the lists and the worlds, for evaluating concrete commands.\<close>

lemmas gate_eval =
  is_allowed_def has_disallowed_def allowed_prefixes_def disallowed_terms_def

lemmas run_eval =
  forward_def subprocess_run_def split_def isspace_def
  answering_def failing_def unlaunchable_def

section \<open>The claims\<close>

text \<open>
  C1. Whenever \<^verbatim>\<open>run_kubectl_command_ro\<close> classifies a command as denied (the command
  starts with \<^verbatim>\<open>"kubectl "\<close>, and its subcommand fails the allow-list match or contains a
  disallowed term), the call returns the denial string and \<^verbatim>\<open>subprocess.run\<close> is not
  called: the outcome is the same in every world.
\<close>

theorem readonly_denial_spawns_nothing:
  assumes "startswith command ''kubectl ''"
    and "\<not> is_allowed (drop 8 command) \<or> has_disallowed (drop 8 command)"
  shows "run_kubectl_command_ro ex command = \<lparr>returned = Inr readonly_error, spawned = []\<rparr>"
  using assms by (auto simp add: run_kubectl_command_ro_def)

theorem readonly_denial_spawns_nothing_witness:
  "startswith ''kubectl logs nginx'' ''kubectl ''
   \<and> \<not> is_allowed (drop 8 ''kubectl logs nginx'')
   \<and> run_kubectl_command_ro (answering ''ok'') ''kubectl logs nginx''
       = \<lparr>returned = Inr readonly_error, spawned = []\<rparr>
   \<and> startswith ''kubectl get pods; kubectl delete pod x'' ''kubectl ''
   \<and> has_disallowed (drop 8 ''kubectl get pods; kubectl delete pod x'')
   \<and> run_kubectl_command_ro (answering ''ok'') ''kubectl get pods; kubectl delete pod x''
       = \<lparr>returned = Inr readonly_error, spawned = []\<rparr>"
proof -
  have a: "startswith ''kubectl logs nginx'' ''kubectl ''" by simp
  have b: "\<not> is_allowed (drop 8 ''kubectl logs nginx'')" by (simp add: gate_eval)
  have c: "startswith ''kubectl get pods; kubectl delete pod x'' ''kubectl ''" by simp
  have d: "has_disallowed (drop 8 ''kubectl get pods; kubectl delete pod x'')"
    by (simp add: gate_eval)
  from b have b': "\<not> is_allowed (drop 8 ''kubectl logs nginx'')
      \<or> has_disallowed (drop 8 ''kubectl logs nginx'')" by (rule disjI1)
  from d have d': "\<not> is_allowed (drop 8 ''kubectl get pods; kubectl delete pod x'')
      \<or> has_disallowed (drop 8 ''kubectl get pods; kubectl delete pod x'')" by (rule disjI2)
  show ?thesis
    using a b c d readonly_denial_spawns_nothing [OF a b', of "answering ''ok''"]
      readonly_denial_spawns_nothing [OF c d', of "answering ''ok''"]
    by (intro conjI)
qed

text \<open>
  C2. For a command that starts with \<^verbatim>\<open>"kubectl "\<close>, the read-only tool lets it through
  (it does what lines 204-213 do, one call of \<^verbatim>\<open>subprocess.run\<close> on the split command)
  exactly when the text after the prefix starts with one of the allowed patterns and no
  disallowed term occurs in it as a contiguous substring; in every other case it returns
  the denial. The condition is stated with the library's \<open>prefix\<close> and \<open>sublist\<close>.
\<close>

theorem readonly_allowed_iff:
  assumes "prefix ''kubectl '' command"
  shows "if (\<exists>p\<in>set allowed_prefixes. prefix p (drop 8 command))
            \<and> (\<forall>t\<in>set disallowed_terms. \<not> sublist t (drop 8 command))
         then run_kubectl_command_ro ex command = forward ex command
            \<and> spawned (run_kubectl_command_ro ex command) = [split command]
         else run_kubectl_command_ro ex command
            = \<lparr>returned = Inr readonly_error, spawned = []\<rparr>"
proof (cases "is_allowed (drop 8 command) \<and> \<not> has_disallowed (drop 8 command)")
  case True
  with assms have "run_kubectl_command_ro ex command = forward ex command"
    by (simp add: gate_passes)
  with True show ?thesis
    by (simp add: is_allowed_iff has_disallowed_iff spawned_forward)
next
  case False
  with assms have "run_kubectl_command_ro ex command
      = \<lparr>returned = Inr readonly_error, spawned = []\<rparr>"
    by (simp add: gate_denies)
  with False show ?thesis
    by (auto simp add: is_allowed_iff has_disallowed_iff)
qed

theorem readonly_allowed_iff_witness:
  "prefix ''kubectl '' ''kubectl get pods -n default''
   \<and> run_kubectl_command_ro (answering ''NAME'') ''kubectl get pods -n default''
       = \<lparr>returned = Inr ''NAME'', spawned = [[''kubectl'', ''get'', ''pods'', ''-n'', ''default'']]\<rparr>
   \<and> prefix ''kubectl '' ''kubectl logs nginx''
   \<and> run_kubectl_command_ro (answering ''NAME'') ''kubectl logs nginx''
       = \<lparr>returned = Inr readonly_error, spawned = []\<rparr>
   \<and> prefix ''kubectl '' ''kubectl get pod updater''
   \<and> run_kubectl_command_ro (answering ''NAME'') ''kubectl get pod updater''
       = \<lparr>returned = Inr readonly_error, spawned = []\<rparr>"
proof -
  have p1: "prefix ''kubectl '' ''kubectl get pods -n default''" by simp
  have p2: "prefix ''kubectl '' ''kubectl logs nginx''" by simp
  have p3: "prefix ''kubectl '' ''kubectl get pod updater''" by simp
  have c1: "(\<exists>p\<in>set allowed_prefixes. prefix p (drop 8 ''kubectl get pods -n default''))
      \<and> (\<forall>t\<in>set disallowed_terms. \<not> sublist t (drop 8 ''kubectl get pods -n default''))"
    by (simp add: allowed_prefixes_def disallowed_terms_def contains_iff_sublist [symmetric])
  have c2: "\<not> (\<exists>p\<in>set allowed_prefixes. prefix p (drop 8 ''kubectl logs nginx''))"
    by (simp add: allowed_prefixes_def)
  have c3: "\<not> (\<forall>t\<in>set disallowed_terms. \<not> sublist t (drop 8 ''kubectl get pod updater''))"
    by (simp add: disallowed_terms_def contains_iff_sublist [symmetric])
  have r1: "run_kubectl_command_ro (answering ''NAME'') ''kubectl get pods -n default''
      = forward (answering ''NAME'') ''kubectl get pods -n default''"
    using readonly_allowed_iff [OF p1, of "answering ''NAME''"] c1 by simp
  have r2: "run_kubectl_command_ro (answering ''NAME'') ''kubectl logs nginx''
      = \<lparr>returned = Inr readonly_error, spawned = []\<rparr>"
    using readonly_allowed_iff [OF p2, of "answering ''NAME''"] c2 by simp
  have r3: "run_kubectl_command_ro (answering ''NAME'') ''kubectl get pod updater''
      = \<lparr>returned = Inr readonly_error, spawned = []\<rparr>"
    using readonly_allowed_iff [OF p3, of "answering ''NAME''"] c3 by simp
  have e1: "forward (answering ''NAME'') ''kubectl get pods -n default''
      = \<lparr>returned = Inr ''NAME'', spawned = [[''kubectl'', ''get'', ''pods'', ''-n'', ''default'']]\<rparr>"
    by (simp add: run_eval)
  show ?thesis
    using p1 p2 p3 r1 r2 r3 e1 by simp
qed

text \<open>
  C3. A command whose text after the prefix contains a term of the disallowed list
  anywhere is denied by the read-only tool and nothing is spawned, whatever the text
  starts with: the scan for disallowed terms wins over a match of the allow-list. The
  two commands of the witness are the spec's; the first one starts with \<^verbatim>\<open>get\<close>.
\<close>

theorem deny_list_takes_precedence:
  assumes "t \<in> set disallowed_terms" and "sublist t body"
  shows "run_kubectl_command_ro ex (''kubectl '' @ body)
           = \<lparr>returned = Inr readonly_error, spawned = []\<rparr>"
proof -
  from assms have "has_disallowed body"
    by (auto simp add: has_disallowed_iff)
  then have "\<not> is_allowed (drop 8 (''kubectl '' @ body))
      \<or> has_disallowed (drop 8 (''kubectl '' @ body))"
    by simp
  with prefix_kubectl show ?thesis
    by (rule gate_denies)
qed

theorem deny_list_takes_precedence_witness:
  "''delete'' \<in> set disallowed_terms
   \<and> sublist ''delete'' ''get pods; kubectl delete pod x''
   \<and> is_allowed ''get pods; kubectl delete pod x''
   \<and> run_kubectl_command_ro (answering ''ok'') ''kubectl get pods; kubectl delete pod x''
       = \<lparr>returned = Inr readonly_error, spawned = []\<rparr>
   \<and> ''label --overwrite'' \<in> set disallowed_terms
   \<and> sublist ''label --overwrite'' ''label --overwrite pod x foo=bar''
   \<and> run_kubectl_command_ro (answering ''ok'') ''kubectl label --overwrite pod x foo=bar''
       = \<lparr>returned = Inr readonly_error, spawned = []\<rparr>"
proof -
  have m1: "''delete'' \<in> set disallowed_terms"
    by (simp add: disallowed_terms_def)
  have s1: "sublist ''delete'' ''get pods; kubectl delete pod x''"
    by (simp add: contains_iff_sublist [symmetric])
  have a1: "is_allowed ''get pods; kubectl delete pod x''"
    by (simp add: gate_eval)
  have m2: "''label --overwrite'' \<in> set disallowed_terms"
    by (simp add: disallowed_terms_def)
  have s2: "sublist ''label --overwrite'' ''label --overwrite pod x foo=bar''"
    by (simp add: contains_iff_sublist [symmetric])
  show ?thesis
    using m1 s1 a1 m2 s2
      deny_list_takes_precedence [OF m1 s1, of "answering ''ok''"]
      deny_list_takes_precedence [OF m2 s2, of "answering ''ok''"]
    by simp
qed

text \<open>
  C4. A command whose text after the prefix starts with an allowed pattern and contains
  no disallowed term is let through by the read-only tool: \<^verbatim>\<open>subprocess.run\<close> is called
  exactly once, on \<^verbatim>\<open>kubectl\<close> followed by the words of the text, and the tool returns
  what the handler makes of the outcome.
\<close>

theorem read_verb_command_runs_once:
  assumes "p \<in> set allowed_prefixes" and "prefix p body"
    and "\<forall>t\<in>set disallowed_terms. \<not> sublist t body"
  shows "spawned (run_kubectl_command_ro ex (''kubectl '' @ body)) = [''kubectl'' # split body]
       \<and> length (spawned (run_kubectl_command_ro ex (''kubectl '' @ body))) = 1
       \<and> returned (run_kubectl_command_ro ex (''kubectl '' @ body))
           = (case ex (''kubectl'' # split body) of
                Exited rc out err \<Rightarrow> Inr (if rc = 0 then out else ''Error: '' @ err)
              | LaunchFailed e \<Rightarrow> Inl (LaunchError e))"
proof -
  from assms(1,2) have "is_allowed (drop 8 (''kubectl '' @ body))"
    by (auto simp add: is_allowed_iff)
  moreover from assms(3) have "\<not> has_disallowed (drop 8 (''kubectl '' @ body))"
    by (simp add: has_disallowed_iff)
  ultimately have "run_kubectl_command_ro ex (''kubectl '' @ body)
      = forward ex (''kubectl '' @ body)"
    by (intro gate_passes prefix_kubectl)
  then show ?thesis
    by (simp only: spawned_forward returned_forward split_kubectl) simp
qed

theorem read_verb_command_runs_once_witness:
  "''get'' \<in> set allowed_prefixes \<and> prefix ''get'' ''get pods''
   \<and> \<not> has_disallowed ''get pods''
   \<and> run_kubectl_command_ro (answering ''ok'') ''kubectl get pods''
       = \<lparr>returned = Inr ''ok'', spawned = [[''kubectl'', ''get'', ''pods'']]\<rparr>
   \<and> ''describe'' \<in> set allowed_prefixes \<and> prefix ''describe'' ''describe deployment nginx''
   \<and> \<not> has_disallowed ''describe deployment nginx''
   \<and> run_kubectl_command_ro (answering ''ok'') ''kubectl describe deployment nginx''
       = \<lparr>returned = Inr ''ok'',
          spawned = [[''kubectl'', ''describe'', ''deployment'', ''nginx'']]\<rparr>
   \<and> ''config view'' \<in> set allowed_prefixes \<and> prefix ''config view'' ''config view''
   \<and> \<not> has_disallowed ''config view''
   \<and> run_kubectl_command_ro (answering ''ok'') ''kubectl config view''
       = \<lparr>returned = Inr ''ok'', spawned = [[''kubectl'', ''config'', ''view'']]\<rparr>
   \<and> ''version'' \<in> set allowed_prefixes \<and> prefix ''version'' ''version''
   \<and> \<not> has_disallowed ''version''
   \<and> run_kubectl_command_ro (failing 1 ''refused'') ''kubectl version''
       = \<lparr>returned = Inr ''Error: refused'', spawned = [[''kubectl'', ''version'']]\<rparr>"
proof -
  have m: "''get'' \<in> set allowed_prefixes" "''describe'' \<in> set allowed_prefixes"
    "''config view'' \<in> set allowed_prefixes" "''version'' \<in> set allowed_prefixes"
    by (simp_all add: allowed_prefixes_def)
  have p: "prefix ''get'' ''get pods''" "prefix ''describe'' ''describe deployment nginx''"
    "prefix ''config view'' ''config view''" "prefix ''version'' ''version''"
    by simp_all
  have d: "\<not> has_disallowed ''get pods''" "\<not> has_disallowed ''describe deployment nginx''"
    "\<not> has_disallowed ''config view''" "\<not> has_disallowed ''version''"
    by (simp_all add: gate_eval)
  have s: "split ''get pods'' = [''get'', ''pods'']"
    "split ''describe deployment nginx'' = [''describe'', ''deployment'', ''nginx'']"
    "split ''config view'' = [''config'', ''view'']"
    "split ''version'' = [''version'']"
    by (simp_all add: split_def isspace_def)
  have r1: "run_kubectl_command_ro (answering ''ok'') ''kubectl get pods''
       = \<lparr>returned = Inr ''ok'', spawned = [[''kubectl'', ''get'', ''pods'']]\<rparr>"
    using read_verb_command_runs_once [OF m(1) p(1), of "answering ''ok''"] d(1)
    by (simp add: has_disallowed_iff s answering_def)
  have r2: "run_kubectl_command_ro (answering ''ok'') ''kubectl describe deployment nginx''
       = \<lparr>returned = Inr ''ok'',
          spawned = [[''kubectl'', ''describe'', ''deployment'', ''nginx'']]\<rparr>"
    using read_verb_command_runs_once [OF m(2) p(2), of "answering ''ok''"] d(2)
    by (simp add: has_disallowed_iff s answering_def)
  have r3: "run_kubectl_command_ro (answering ''ok'') ''kubectl config view''
       = \<lparr>returned = Inr ''ok'', spawned = [[''kubectl'', ''config'', ''view'']]\<rparr>"
    using read_verb_command_runs_once [OF m(3) p(3), of "answering ''ok''"] d(3)
    by (simp add: has_disallowed_iff s answering_def)
  have r4: "run_kubectl_command_ro (failing 1 ''refused'') ''kubectl version''
       = \<lparr>returned = Inr ''Error: refused'', spawned = [[''kubectl'', ''version'']]\<rparr>"
    using read_verb_command_runs_once [OF m(4) p(4), of "failing 1 ''refused''"] d(4)
    by (simp add: has_disallowed_iff s failing_def)
  show ?thesis
    using m p d r1 r2 r3 r4 by (intro conjI)
qed

text \<open>
  C5. The allow-list patterns with a space in them match literally: a subcommand that
  starts with \<^verbatim>\<open>config\<close> passes the allow-list only if it starts with \<^verbatim>\<open>config view\<close> or
  \<^verbatim>\<open>config get-contexts\<close>. So \<^verbatim>\<open>kubectl config get-contexts\<close> is let through, and
  \<^verbatim>\<open>kubectl config delete-context prod\<close> fails the allow-list and is denied.
\<close>

theorem config_patterns_match_literally:
  "(prefix ''config'' body \<and> is_allowed body
      \<longrightarrow> prefix ''config view'' body \<or> prefix ''config get-contexts'' body)
   \<and> is_allowed ''config get-contexts''
   \<and> run_kubectl_command_ro ex ''kubectl config get-contexts''
       = forward ex ''kubectl config get-contexts''
   \<and> spawned (run_kubectl_command_ro ex ''kubectl config get-contexts'')
       = [[''kubectl'', ''config'', ''get-contexts'']]
   \<and> \<not> is_allowed ''config delete-context prod''
   \<and> run_kubectl_command_ro ex ''kubectl config delete-context prod''
       = \<lparr>returned = Inr readonly_error, spawned = []\<rparr>"
proof -
  have literal: "prefix ''config'' body \<and> is_allowed body
      \<longrightarrow> prefix ''config view'' body \<or> prefix ''config get-contexts'' body"
    by (auto simp add: is_allowed_iff allowed_prefixes_def prefix_def)
  have yes: "is_allowed ''config get-contexts''"
    and clean: "\<not> has_disallowed ''config get-contexts''"
    and no: "\<not> is_allowed ''config delete-context prod''"
    by (simp_all add: gate_eval)
  have run: "run_kubectl_command_ro ex ''kubectl config get-contexts''
      = forward ex ''kubectl config get-contexts''"
    using yes clean by (simp add: gate_passes)
  have argv: "split ''kubectl config get-contexts'' = [''kubectl'', ''config'', ''get-contexts'']"
    by (simp add: split_def isspace_def)
  have denied: "run_kubectl_command_ro ex ''kubectl config delete-context prod''
      = \<lparr>returned = Inr readonly_error, spawned = []\<rparr>"
    using no by (simp add: gate_denies)
  from literal yes run argv no denied show ?thesis
    by (simp only: spawned_forward) simp
qed

theorem config_patterns_match_literally_witness:
  "prefix ''config'' ''config view --minify'' \<and> is_allowed ''config view --minify''
   \<and> prefix ''config view'' ''config view --minify''
   \<and> \<not> prefix ''config get-contexts'' ''config view --minify''
   \<and> prefix ''config'' ''config current-context'' \<and> \<not> has_disallowed ''config current-context''
   \<and> \<not> is_allowed ''config current-context''
   \<and> spawned (run_kubectl_command_ro (answering ''ok'') ''kubectl config get-contexts'')
       = [[''kubectl'', ''config'', ''get-contexts'']]
   \<and> run_kubectl_command_ro (answering ''ok'') ''kubectl config delete-context prod''
       = \<lparr>returned = Inr readonly_error, spawned = []\<rparr>"
proof -
  have "prefix ''config'' ''config view --minify''" "is_allowed ''config view --minify''"
    "prefix ''config view'' ''config view --minify''"
    "\<not> prefix ''config get-contexts'' ''config view --minify''"
    "prefix ''config'' ''config current-context''" "\<not> has_disallowed ''config current-context''"
    by (simp_all add: gate_eval)
  moreover have "\<not> is_allowed ''config current-context''"
    using config_patterns_match_literally [of "''config current-context''" "answering ''ok''"]
    by auto
  ultimately show ?thesis
    using config_patterns_match_literally [of "''config view --minify''" "answering ''ok''"]
    by blast
qed

text \<open>
  C6. For a command that does not start with \<^verbatim>\<open>"kubectl "\<close>, both tools return the fixed
  string \<^verbatim>\<open>Error: Command must start with 'kubectl'\<close> and spawn nothing.
\<close>

theorem malformed_command_rejected:
  assumes "\<not> prefix ''kubectl '' command"
  shows "run_kubectl_command ex command = \<lparr>returned = Inr prefix_error, spawned = []\<rparr>
       \<and> run_kubectl_command_ro ex command = \<lparr>returned = Inr prefix_error, spawned = []\<rparr>"
  using assms
  by (simp add: run_kubectl_command_def run_kubectl_command_ro_def startswith_iff_prefix)

theorem malformed_command_rejected_witness:
  "\<not> prefix ''kubectl '' ''kubectl''
   \<and> run_kubectl_command (answering ''ok'') ''kubectl''
       = \<lparr>returned = Inr prefix_error, spawned = []\<rparr>
   \<and> run_kubectl_command_ro (answering ''ok'') ''kubectl''
       = \<lparr>returned = Inr prefix_error, spawned = []\<rparr>
   \<and> \<not> prefix ''kubectl '' '' kubectl get pods''
   \<and> run_kubectl_command (answering ''ok'') '' kubectl get pods''
       = \<lparr>returned = Inr prefix_error, spawned = []\<rparr>
   \<and> run_kubectl_command_ro (answering ''ok'') '' kubectl get pods''
       = \<lparr>returned = Inr prefix_error, spawned = []\<rparr>"
proof -
  have a: "\<not> prefix ''kubectl '' ''kubectl''" by simp
  have b: "\<not> prefix ''kubectl '' '' kubectl get pods''" by simp
  show ?thesis
    using a b malformed_command_rejected [OF a, of "answering ''ok''"]
      malformed_command_rejected [OF b, of "answering ''ok''"]
    by (intro conjI) simp_all
qed

text \<open>
  C7. For a command that starts with \<^verbatim>\<open>"kubectl "\<close>, the unrestricted tool hands the
  command to \<^verbatim>\<open>subprocess.run\<close>, split on whitespace (the first word is \<^verbatim>\<open>kubectl\<close>, no
  word is empty or holds a whitespace character, and the words together are the
  command without its whitespace), and returns what the handler makes of the outcome.
  Nothing else about the command is looked at: the witness is a delete.
\<close>

theorem unrestricted_forwards_unclassified:
  assumes "prefix ''kubectl '' command"
  shows "spawned (run_kubectl_command ex command) = [split command]
       \<and> split command = ''kubectl'' # split (drop 8 command)
       \<and> (\<forall>w\<in>set (split command). w \<noteq> [] \<and> (\<forall>c\<in>set w. \<not> isspace c))
       \<and> concat (split command) = filter (\<lambda>c. \<not> isspace c) command
       \<and> returned (run_kubectl_command ex command)
           = (case ex (split command) of
                Exited rc out err \<Rightarrow> Inr (if rc = 0 then out else ''Error: '' @ err)
              | LaunchFailed e \<Rightarrow> Inl (LaunchError e))"
proof -
  from assms obtain body where command: "command = ''kubectl '' @ body"
    by (auto simp add: prefix_def)
  have run: "run_kubectl_command ex command = forward ex command"
    using assms by (simp add: run_kubectl_command_def startswith_iff_prefix)
  have argv: "split command = ''kubectl'' # split (drop 8 command)"
    unfolding command by (simp only: split_kubectl drop_kubectl)
  from run argv split_tokens [of command] concat_split [of command] show ?thesis
    by (simp only: spawned_forward returned_forward)
qed

theorem unrestricted_forwards_unclassified_witness:
  "prefix ''kubectl '' ''kubectl delete pod nginx''
   \<and> \<not> is_allowed ''delete pod nginx'' \<and> has_disallowed ''delete pod nginx''
   \<and> spawned (run_kubectl_command (answering ''pod nginx deleted'') ''kubectl delete pod nginx'')
       = [[''kubectl'', ''delete'', ''pod'', ''nginx'']]
   \<and> returned (run_kubectl_command (answering ''pod nginx deleted'') ''kubectl delete pod nginx'')
       = Inr ''pod nginx deleted''"
proof -
  have p: "prefix ''kubectl '' ''kubectl delete pod nginx''" by simp
  have g: "\<not> is_allowed ''delete pod nginx''" "has_disallowed ''delete pod nginx''"
    by (simp_all add: gate_eval)
  have s: "split ''kubectl delete pod nginx'' = [''kubectl'', ''delete'', ''pod'', ''nginx'']"
    by (simp add: split_def isspace_def)
  show ?thesis
    using p g unrestricted_forwards_unclassified [OF p, of "answering ''pod nginx deleted''"]
    by (simp add: s answering_def)
qed

text \<open>
  C8 says that a non-zero exit and a failure to start the process both come back as an
  error string. The second half fails on the code: when the process cannot be started,
  \<^verbatim>\<open>subprocess.run\<close> raises an exception that is not a CalledProcessError, the handler
  of the tools does not catch it, and the exception leaves both tools. (A non-zero exit
  is reported, by \<open>nonzero_exit_is_reported\<close>.)
\<close>

theorem launch_failure_escapes_the_tools:
  assumes "prefix ''kubectl '' command" and "ex (split command) = LaunchFailed e"
  shows "returned (run_kubectl_command ex command) = Inl (LaunchError e)
       \<and> (is_allowed (drop 8 command) \<and> \<not> has_disallowed (drop 8 command)
            \<longrightarrow> returned (run_kubectl_command_ro ex command) = Inl (LaunchError e))"
  using assms
  by (simp add: run_kubectl_command_def startswith_iff_prefix gate_passes returned_forward)

theorem launch_failure_escapes_the_tools_witness:
  "prefix ''kubectl '' ''kubectl get pods''
   \<and> unlaunchable ''FileNotFoundError'' (split ''kubectl get pods'')
       = LaunchFailed ''FileNotFoundError''
   \<and> is_allowed (drop 8 ''kubectl get pods'') \<and> \<not> has_disallowed (drop 8 ''kubectl get pods'')
   \<and> returned (run_kubectl_command (unlaunchable ''FileNotFoundError'') ''kubectl get pods'')
       = Inl (LaunchError ''FileNotFoundError'')
   \<and> returned (run_kubectl_command_ro (unlaunchable ''FileNotFoundError'') ''kubectl get pods'')
       = Inl (LaunchError ''FileNotFoundError'')"
proof -
  have p: "prefix ''kubectl '' ''kubectl get pods''" by simp
  have l: "unlaunchable ''FileNotFoundError'' (split ''kubectl get pods'')
       = LaunchFailed ''FileNotFoundError''"
    by (simp add: unlaunchable_def)
  have g: "is_allowed (drop 8 ''kubectl get pods'')" "\<not> has_disallowed (drop 8 ''kubectl get pods'')"
    by (simp_all add: gate_eval)
  show ?thesis
    using p l g
      launch_failure_escapes_the_tools [of "''kubectl get pods''"
        "unlaunchable ''FileNotFoundError''" "''FileNotFoundError''"]
    by blast
qed

text \<open>
  C9, as stated, fails: a command denied only by the allow-list and a command denied
  only by a disallowed term get the same outcome, so the returned string does not say
  which of the two checks failed.
\<close>

theorem denial_reason_counterexample:
  "\<not> is_allowed ''logs nginx'' \<and> \<not> has_disallowed ''logs nginx''
   \<and> is_allowed ''get pod updater'' \<and> has_disallowed ''get pod updater''
   \<and> run_kubectl_command_ro (answering ''ok'') ''kubectl logs nginx''
       = run_kubectl_command_ro (answering ''ok'') ''kubectl get pod updater''"
proof -
  have g: "\<not> is_allowed ''logs nginx''" "\<not> has_disallowed ''logs nginx''"
    "is_allowed ''get pod updater''" "has_disallowed ''get pod updater''"
    by (simp_all add: gate_eval)
  have "run_kubectl_command_ro (answering ''ok'') ''kubectl logs nginx''
      = \<lparr>returned = Inr readonly_error, spawned = []\<rparr>"
    using g(1) by (simp add: gate_denies)
  moreover have "run_kubectl_command_ro (answering ''ok'') ''kubectl get pod updater''
      = \<lparr>returned = Inr readonly_error, spawned = []\<rparr>"
    using g(4) by (simp add: gate_denies)
  ultimately show ?thesis
    using g by simp
qed

text \<open>
  C9, amended. A denial of the read-only tool returns one of two fixed strings: the
  prefix error when the command does not start with \<^verbatim>\<open>"kubectl "\<close>, and the read-only
  error for every other denial, whether the allow-list, a disallowed term or both
  caused it. The two strings differ.
\<close>

theorem denial_reasons:
  "(\<not> prefix ''kubectl '' command
      \<longrightarrow> run_kubectl_command_ro ex command = \<lparr>returned = Inr prefix_error, spawned = []\<rparr>)
   \<and> (prefix ''kubectl '' command
        \<and> (\<not> is_allowed (drop 8 command) \<or> has_disallowed (drop 8 command))
      \<longrightarrow> run_kubectl_command_ro ex command = \<lparr>returned = Inr readonly_error, spawned = []\<rparr>)
   \<and> prefix_error \<noteq> readonly_error"
  by (auto simp add: run_kubectl_command_ro_def startswith_iff_prefix errors_differ)

theorem denial_reasons_witness:
  "\<not> prefix ''kubectl '' ''helm list''
   \<and> returned (run_kubectl_command_ro (answering ''ok'') ''helm list'') = Inr prefix_error
   \<and> prefix ''kubectl '' ''kubectl logs nginx'' \<and> \<not> is_allowed (drop 8 ''kubectl logs nginx'')
   \<and> returned (run_kubectl_command_ro (answering ''ok'') ''kubectl logs nginx'')
       = Inr readonly_error
   \<and> prefix ''kubectl '' ''kubectl get pod updater''
   \<and> has_disallowed (drop 8 ''kubectl get pod updater'')
   \<and> returned (run_kubectl_command_ro (answering ''ok'') ''kubectl get pod updater'')
       = Inr readonly_error
   \<and> prefix_error \<noteq> readonly_error"
proof -
  have h: "\<not> prefix ''kubectl '' ''helm list''"
    "prefix ''kubectl '' ''kubectl logs nginx''" "\<not> is_allowed (drop 8 ''kubectl logs nginx'')"
    "prefix ''kubectl '' ''kubectl get pod updater''"
    "has_disallowed (drop 8 ''kubectl get pod updater'')"
    by (simp_all add: gate_eval)
  have r1: "returned (run_kubectl_command_ro (answering ''ok'') ''helm list'') = Inr prefix_error"
    using h(1) denial_reasons [of "''helm list''" "answering ''ok''"] by simp
  have r2: "returned (run_kubectl_command_ro (answering ''ok'') ''kubectl logs nginx'')
       = Inr readonly_error"
    using h(2,3) denial_reasons [of "''kubectl logs nginx''" "answering ''ok''"] by simp
  have r3: "returned (run_kubectl_command_ro (answering ''ok'') ''kubectl get pod updater'')
       = Inr readonly_error"
    using h(4,5) denial_reasons [of "''kubectl get pod updater''" "answering ''ok''"] by simp
  show ?thesis
    using h r1 r2 r3 denial_reasons [of "''helm list''" "answering ''ok''"] by (intro conjI) simp_all
qed

text \<open>
  C10. The allow-list needs no word boundary after the pattern: when the text after
  the prefix is an allowed pattern directly followed by a character that is not
  whitespace, and holds no disallowed term, the read-only tool lets the command through
  and spawns it.
\<close>

theorem allow_list_needs_no_token_boundary:
  assumes "p \<in> set allowed_prefixes" and "\<not> isspace c"
    and "\<forall>t\<in>set disallowed_terms. \<not> sublist t (p @ c # rest)"
  shows "is_allowed (p @ c # rest)
       \<and> run_kubectl_command_ro ex (''kubectl '' @ p @ c # rest)
           = forward ex (''kubectl '' @ p @ c # rest)
       \<and> spawned (run_kubectl_command_ro ex (''kubectl '' @ p @ c # rest))
           = [''kubectl'' # split (p @ c # rest)]"
proof -
  from assms(1) have a: "is_allowed (p @ c # rest)"
    by (auto simp add: is_allowed_iff intro!: bexI [of _ p])
  from assms(3) have d: "\<not> has_disallowed (p @ c # rest)"
    by (simp add: has_disallowed_iff)
  have "run_kubectl_command_ro ex (''kubectl '' @ p @ c # rest)
      = forward ex (''kubectl '' @ p @ c # rest)"
    using a d by (intro gate_passes prefix_kubectl) simp_all
  with a show ?thesis
    by (simp only: spawned_forward split_kubectl)
qed

theorem allow_list_needs_no_token_boundary_witness:
  "''get'' \<in> set allowed_prefixes \<and> \<not> isspace CHR ''t''
   \<and> \<not> has_disallowed ''gettysburg''
   \<and> spawned (run_kubectl_command_ro (answering ''ok'') ''kubectl gettysburg'')
       = [[''kubectl'', ''gettysburg'']]
   \<and> ''version'' \<in> set allowed_prefixes \<and> \<not> isspace CHR ''s''
   \<and> \<not> has_disallowed ''versions --foo''
   \<and> spawned (run_kubectl_command_ro (answering ''ok'') ''kubectl versions --foo'')
       = [[''kubectl'', ''versions'', ''--foo'']]"
proof -
  have m: "''get'' \<in> set allowed_prefixes" "''version'' \<in> set allowed_prefixes"
    by (simp_all add: allowed_prefixes_def)
  have c: "\<not> isspace CHR ''t''" "\<not> isspace CHR ''s''"
    by (simp_all add: isspace_def)
  have d: "\<not> has_disallowed ''gettysburg''" "\<not> has_disallowed ''versions --foo''"
    by (simp_all add: gate_eval)
  have r1: "spawned (run_kubectl_command_ro (answering ''ok'') ''kubectl gettysburg'')
       = [[''kubectl'', ''gettysburg'']]"
    using allow_list_needs_no_token_boundary [OF m(1) c(1), of "''ysburg''" "answering ''ok''"]
      d(1)
    by (simp add: has_disallowed_iff spawned_forward split_def isspace_def)
  have r2: "spawned (run_kubectl_command_ro (answering ''ok'') ''kubectl versions --foo'')
       = [[''kubectl'', ''versions'', ''--foo'']]"
    using allow_list_needs_no_token_boundary [OF m(2) c(2), of "'' --foo''" "answering ''ok''"]
      d(2)
    by (simp add: has_disallowed_iff spawned_forward split_def isspace_def)
  show ?thesis
    using m c d r1 r2 by (intro conjI)
qed

end
